theory Spec2Isabelle
  imports Main
begin

section \<open>The datetime values the age counter computes with\<close>

text \<open>
  \<^verbatim>\<open>age_logic.calculate_detailed_age(now, dob)\<close> reads the fields of two naive
  \<^verbatim>\<open>datetime.datetime\<close> values, builds a third one with the constructor and subtracts two of
  them. This section embeds exactly that part of Python's \<^verbatim>\<open>datetime\<close> module: the
  field checks of the constructor (which raise \<^verbatim>\<open>ValueError\<close>), the proleptic Gregorian
  ordinal of a date, the comparison of two datetimes and the subtraction that yields a
  normalised \<^verbatim>\<open>timedelta\<close>. Python integers are unbounded, so every field is an \<open>int\<close>;
  \<^verbatim>\<open>//\<close> and \<^verbatim>\<open>%\<close> with a positive divisor are \<open>div\<close> and \<open>mod\<close> on \<open>int\<close> (both floor).
\<close>

record datetime =
  year :: int
  month :: int
  day :: int
  hour :: int
  minute :: int
  second :: int
  microsecond :: int

text \<open>The field whose range check failed; the exception is a \<^verbatim>\<open>ValueError\<close> in every case.\<close>

datatype field = Year | Month | Day | Hour | Minute | Second | Microsecond

datatype error = ValueError field

definition MINYEAR :: int where
  "MINYEAR = 1"

definition MAXYEAR :: int where
  "MAXYEAR = 9999"

text \<open>\<^verbatim>\<open>_DAYS_IN_MONTH\<close> and \<^verbatim>\<open>_DAYS_BEFORE_MONTH\<close>, indexed by the month, index 0 a placeholder.\<close>

definition DAYS_IN_MONTH :: "int list" where
  "DAYS_IN_MONTH = [-1, 31, 28, 31, 30, 31, 30, 31, 31, 30, 31, 30, 31]"

definition DAYS_BEFORE_MONTH :: "int list" where
  "DAYS_BEFORE_MONTH = [-1, 0, 31, 59, 90, 120, 151, 181, 212, 243, 273, 304, 334]"

definition is_leap :: "int \<Rightarrow> bool" where
  "is_leap y = (y mod 4 = 0 \<and> (y mod 100 \<noteq> 0 \<or> y mod 400 = 0))"

text \<open>
  The two table lookups are only ever reached with a month in \<open>1..12\<close>: the constructor
  checks the month before it asks for the length of the month, and \<open>toordinal\<close> is applied
  to constructed values only.
\<close>

definition days_in_month :: "int \<Rightarrow> int \<Rightarrow> int" where
  "days_in_month y m = (if m = 2 \<and> is_leap y then 29 else DAYS_IN_MONTH ! nat m)"

definition days_before_year :: "int \<Rightarrow> int" where
  "days_before_year y = (let y1 = y - 1 in y1 * 365 + y1 div 4 - y1 div 100 + y1 div 400)"

definition days_before_month :: "int \<Rightarrow> int \<Rightarrow> int" where
  "days_before_month y m = DAYS_BEFORE_MONTH ! nat m + (if 2 < m \<and> is_leap y then 1 else 0)"

definition ymd2ord :: "int \<Rightarrow> int \<Rightarrow> int \<Rightarrow> int" where
  "ymd2ord y m d = days_before_year y + days_before_month y m + d"

definition toordinal :: "datetime \<Rightarrow> int" where
  "toordinal t = ymd2ord (year t) (month t) (day t)"

text \<open>\<^verbatim>\<open>_check_date_fields\<close>: year, then month, then day against the length of that month.\<close>

definition check_date_fields :: "int \<Rightarrow> int \<Rightarrow> int \<Rightarrow> error option" where
  "check_date_fields y m d =
     (if \<not> (MINYEAR \<le> y \<and> y \<le> MAXYEAR) then Some (ValueError Year)
      else if \<not> (1 \<le> m \<and> m \<le> 12) then Some (ValueError Month)
      else if \<not> (1 \<le> d \<and> d \<le> days_in_month y m) then Some (ValueError Day)
      else None)"

text \<open>\<^verbatim>\<open>_check_time_fields\<close>: hour, minute, second, microsecond, in this order.\<close>

definition check_time_fields :: "int \<Rightarrow> int \<Rightarrow> int \<Rightarrow> int \<Rightarrow> error option" where
  "check_time_fields h mi s us =
     (if \<not> (0 \<le> h \<and> h \<le> 23) then Some (ValueError Hour)
      else if \<not> (0 \<le> mi \<and> mi \<le> 59) then Some (ValueError Minute)
      else if \<not> (0 \<le> s \<and> s \<le> 59) then Some (ValueError Second)
      else if \<not> (0 \<le> us \<and> us \<le> 999999) then Some (ValueError Microsecond)
      else None)"

text \<open>
  The constructor call \<^verbatim>\<open>dt.datetime(year=.., month=.., day=.., hour=.., minute=.., second=..)\<close>:
  the microsecond is not passed and defaults to 0.
\<close>

definition new_datetime :: "int \<Rightarrow> int \<Rightarrow> int \<Rightarrow> int \<Rightarrow> int \<Rightarrow> int \<Rightarrow> error + datetime" where
  "new_datetime y m d h mi s =
     (case check_date_fields y m d of
        Some e \<Rightarrow> Inl e
      | None \<Rightarrow>
          (case check_time_fields h mi s 0 of
             Some e \<Rightarrow> Inl e
           | None \<Rightarrow>
               Inr \<lparr>year = y, month = m, day = d, hour = h, minute = mi, second = s,
                    microsecond = 0\<rparr>))"

text \<open>The values a \<^verbatim>\<open>datetime\<close> object can hold: those that pass both checks.\<close>

definition valid_datetime :: "datetime \<Rightarrow> bool" where
  "valid_datetime t =
     (check_date_fields (year t) (month t) (day t) = None \<and>
      check_time_fields (hour t) (minute t) (second t) (microsecond t) = None)"

text \<open>
  A \<^verbatim>\<open>timedelta\<close> as the constructor normalises it from integer arguments: microseconds
  carry into seconds and seconds into days, leaving \<open>0 \<le> seconds < 86400\<close> and
  \<open>0 \<le> microseconds < 1000000\<close>; only the days can be negative.
\<close>

record timedelta =
  delta_days :: int
  delta_seconds :: int
  delta_microseconds :: int

definition new_timedelta :: "int \<Rightarrow> int \<Rightarrow> int \<Rightarrow> timedelta" where
  "new_timedelta d s us =
     (let s1 = s + us div 1000000
      in \<lparr>delta_days = d + s1 div 86400, delta_seconds = s1 mod 86400,
          delta_microseconds = us mod 1000000\<rparr>)"

definition seconds_of_day :: "datetime \<Rightarrow> int" where
  "seconds_of_day t = second t + minute t * 60 + hour t * 3600"

text \<open>\<^verbatim>\<open>datetime.__sub__\<close> on two naive datetimes.\<close>

definition datetime_sub :: "datetime \<Rightarrow> datetime \<Rightarrow> timedelta" where
  "datetime_sub a b =
     new_timedelta (toordinal a - toordinal b) (seconds_of_day a - seconds_of_day b)
       (microsecond a - microsecond b)"

text \<open>
  Python orders tuples lexicographically; \<open>tuple_less\<close> is \<^verbatim>\<open>(a, b) < (c, d)\<close> on pairs and
  \<open>lex_less\<close> the same on the seven fields by which two datetimes are compared.
\<close>

fun tuple_less :: "int \<times> int \<Rightarrow> int \<times> int \<Rightarrow> bool" where
  "tuple_less (a, b) (c, d) = (a < c \<or> (a = c \<and> b < d))"

fun lex_less :: "int list \<Rightarrow> int list \<Rightarrow> bool" where
  "lex_less [] [] = False"
| "lex_less [] (y # ys) = True"
| "lex_less (x # xs) [] = False"
| "lex_less (x # xs) (y # ys) = (x < y \<or> (x = y \<and> lex_less xs ys))"

definition fields_of :: "datetime \<Rightarrow> int list" where
  "fields_of t = [year t, month t, day t, hour t, minute t, second t, microsecond t]"

definition datetime_less :: "datetime \<Rightarrow> datetime \<Rightarrow> bool" where
  "datetime_less a b = lex_less (fields_of a) (fields_of b)"

definition datetime_le :: "datetime \<Rightarrow> datetime \<Rightarrow> bool" where
  "datetime_le a b = (a = b \<or> datetime_less a b)"

section \<open>The age computation\<close>

text \<open>
  The dictionary the function returns has the six fixed keys \<^verbatim>\<open>"years"\<close>, \<^verbatim>\<open>"months"\<close>,
  \<^verbatim>\<open>"days"\<close>, \<^verbatim>\<open>"hours"\<close>, \<^verbatim>\<open>"minutes"\<close>, \<^verbatim>\<open>"seconds"\<close>; it is a record with one field
  per key.
\<close>

record age =
  years :: int
  months :: int
  days :: int
  hours :: int
  minutes :: int
  seconds :: int

text \<open>
  \<^verbatim>\<open>calculate_detailed_age(now, dob)\<close>, statement by statement. The only statement that can
  raise is the construction of \<^verbatim>\<open>last_birthday\<close>.
\<close>

definition calculate_detailed_age :: "datetime \<Rightarrow> datetime \<Rightarrow> error + age" where
  "calculate_detailed_age now dob =
     (let years0 = year now - year dob;
          years1 = (if tuple_less (month now, day now) (month dob, day dob)
                    then years0 - 1 else years0);
          months0 = month now - month dob;
          months1 = (if day now < day dob then months0 - 1 else months0);
          months2 = (if months1 < 0 then months1 + 12 else months1);
          last_birthday_year0 = year dob + years1;
          last_birthday_month0 = month dob + months2;
          last_birthday_month =
            (if last_birthday_month0 > 12 then last_birthday_month0 - 12
             else last_birthday_month0);
          last_birthday_year =
            (if last_birthday_month0 > 12 then last_birthday_year0 + 1
             else last_birthday_year0)
      in case new_datetime last_birthday_year last_birthday_month (day dob)
                (hour dob) (minute dob) (second dob) of
           Inl e \<Rightarrow> Inl e
         | Inr last_birthday \<Rightarrow>
             (let delta = datetime_sub now last_birthday;
                  days1 = delta_days delta;
                  seconds_left = delta_seconds delta
              in Inr \<lparr>years = years1, months = months2, days = days1,
                      hours = seconds_left div 3600,
                      minutes = (seconds_left mod 3600) div 60,
                      seconds = seconds_left mod 60\<rparr>))"

text \<open>
  The locals of the function as functions of its two arguments, each written as the
  source computes it: \<^verbatim>\<open>years\<close>, \<^verbatim>\<open>months\<close>, and the year and month passed to the
  constructor of \<^verbatim>\<open>last_birthday\<close>. \<open>calculate_detailed_age_unfold\<close> below proves
  that the function is their composition.
\<close>

definition birthday_years :: "datetime \<Rightarrow> datetime \<Rightarrow> int" where
  "birthday_years now dob =
     (let years0 = year now - year dob
      in if tuple_less (month now, day now) (month dob, day dob) then years0 - 1 else years0)"

definition birthday_months :: "datetime \<Rightarrow> datetime \<Rightarrow> int" where
  "birthday_months now dob =
     (let months0 = month now - month dob;
          months1 = (if day now < day dob then months0 - 1 else months0)
      in if months1 < 0 then months1 + 12 else months1)"

definition last_birthday_year :: "datetime \<Rightarrow> datetime \<Rightarrow> int" where
  "last_birthday_year now dob =
     (if month dob + birthday_months now dob > 12
      then year dob + birthday_years now dob + 1 else year dob + birthday_years now dob)"

definition last_birthday_month :: "datetime \<Rightarrow> datetime \<Rightarrow> int" where
  "last_birthday_month now dob =
     (if month dob + birthday_months now dob > 12
      then month dob + birthday_months now dob - 12 else month dob + birthday_months now dob)"

definition age_of_delta :: "int \<Rightarrow> int \<Rightarrow> timedelta \<Rightarrow> age" where
  "age_of_delta y m delta =
     \<lparr>years = y, months = m, days = delta_days delta,
      hours = delta_seconds delta div 3600,
      minutes = (delta_seconds delta mod 3600) div 60,
      seconds = delta_seconds delta mod 60\<rparr>"

section \<open>The vocabulary of the specification\<close>

text \<open>
  The specification speaks of adding a breakdown back onto the origin: years and months by
  calendar addition, which keeps the day of the month and the time of day and exists only
  when that day exists in the month reached, and days, hours, minutes and seconds as a
  fixed duration. Neither operation occurs in the source; they are defined here to state
  the reconstruction law. A fixed duration is added on the time line: \<open>timestamp\<close> is the
  number of microseconds since the start of day 0 of the proleptic Gregorian calendar, and
  \<open>add_duration_yields t us r\<close> says that \<open>r\<close> is the datetime \<open>us\<close> microseconds after \<open>t\<close>.
\<close>

definition add_years_months :: "datetime \<Rightarrow> int \<Rightarrow> int \<Rightarrow> datetime option" where
  "add_years_months t y m =
     (let months_total = (year t + y) * 12 + (month t - 1) + m;
          y' = months_total div 12;
          m' = months_total mod 12 + 1
      in if check_date_fields y' m' (day t) = None then Some (t\<lparr>year := y', month := m'\<rparr>)
         else None)"

definition timestamp :: "datetime \<Rightarrow> int" where
  "timestamp t = (toordinal t * 86400 + seconds_of_day t) * 1000000 + microsecond t"

definition duration_of :: "age \<Rightarrow> int" where
  "duration_of b = (days b * 86400 + hours b * 3600 + minutes b * 60 + seconds b) * 1000000"

definition add_duration_yields :: "datetime \<Rightarrow> int \<Rightarrow> datetime \<Rightarrow> bool" where
  "add_duration_yields t us r = (valid_datetime r \<and> timestamp r = timestamp t + us)"

text \<open>A datetime with no sub-second part, as \<^verbatim>\<open>strptime\<close> with the format of the UI yields.\<close>

abbreviation instant :: "int \<Rightarrow> int \<Rightarrow> int \<Rightarrow> int \<Rightarrow> int \<Rightarrow> int \<Rightarrow> datetime" where
  "instant y m d h mi s \<equiv>
     \<lparr>year = y, month = m, day = d, hour = h, minute = mi, second = s, microsecond = 0\<rparr>"

section \<open>Evaluation\<close>

lemmas datetime_eval =
  calculate_detailed_age_def new_datetime_def check_date_fields_def check_time_fields_def
  datetime_sub_def new_timedelta_def toordinal_def ymd2ord_def days_before_year_def
  days_before_month_def days_in_month_def is_leap_def seconds_of_day_def
  DAYS_IN_MONTH_def DAYS_BEFORE_MONTH_def MINYEAR_def MAXYEAR_def Let_def

lemmas valid_eval =
  valid_datetime_def check_date_fields_def check_time_fields_def days_in_month_def
  is_leap_def DAYS_IN_MONTH_def MINYEAR_def MAXYEAR_def

lemmas order_eval = datetime_le_def datetime_less_def fields_of_def

section \<open>The function as the composition of its locals\<close>

lemma calculate_detailed_age_unfold:
  "calculate_detailed_age now dob =
     (case new_datetime (last_birthday_year now dob) (last_birthday_month now dob) (day dob)
             (hour dob) (minute dob) (second dob) of
        Inl e \<Rightarrow> Inl e
      | Inr last_birthday \<Rightarrow>
          Inr (age_of_delta (birthday_years now dob) (birthday_months now dob)
                 (datetime_sub now last_birthday)))"
  unfolding calculate_detailed_age_def birthday_years_def birthday_months_def
    last_birthday_year_def last_birthday_month_def age_of_delta_def Let_def
  by (rule refl)

lemma valid_datetime_iff:
  "valid_datetime t \<longleftrightarrow>
     1 \<le> year t \<and> year t \<le> 9999 \<and> 1 \<le> month t \<and> month t \<le> 12 \<and>
     1 \<le> day t \<and> day t \<le> days_in_month (year t) (month t) \<and>
     0 \<le> hour t \<and> hour t \<le> 23 \<and> 0 \<le> minute t \<and> minute t \<le> 59 \<and>
     0 \<le> second t \<and> second t \<le> 59 \<and> 0 \<le> microsecond t \<and> microsecond t \<le> 999999"
  by (auto simp: valid_datetime_def check_date_fields_def check_time_fields_def
      MINYEAR_def MAXYEAR_def)

lemma month_cases:
  assumes "1 \<le> m" "m \<le> 12"
  shows "m = 1 \<or> m = 2 \<or> m = 3 \<or> m = 4 \<or> m = 5 \<or> m = 6 \<or> m = 7 \<or> m = 8 \<or> m = 9 \<or>
         m = 10 \<or> m = 11 \<or> m = (12::int)"
  using assms by arith

lemma days_in_month_bounds:
  assumes "1 \<le> m" "m \<le> 12"
  shows "28 \<le> days_in_month y m \<and> days_in_month y m \<le> 31"
  using month_cases [OF assms]
  by (auto simp: days_in_month_def DAYS_IN_MONTH_def)

text \<open>The last birthday lies in the month of now, or in the month before.\<close>
lemma last_birthday_month_eq:
  assumes "1 \<le> month now" "month now \<le> 12" "1 \<le> month dob" "month dob \<le> 12"
  shows "last_birthday_month now dob =
           (if day now < day dob then (if month now = 1 then 12 else month now - 1)
            else month now)"
  using assms
  by (auto simp: last_birthday_month_def birthday_months_def Let_def)

lemma last_birthday_year_eq:
  assumes "1 \<le> month now" "month now \<le> 12" "1 \<le> month dob" "month dob \<le> 12"
  shows "last_birthday_year now dob =
           (if day now < day dob \<and> month now = 1 then year now - 1 else year now)"
  using assms
  by (auto simp: last_birthday_year_def birthday_months_def birthday_years_def Let_def)


lemma new_datetime_of_valid:
  assumes "valid_datetime dob"
  shows "new_datetime y m (day dob) (hour dob) (minute dob) (second dob) =
           (case check_date_fields y m (day dob) of
              Some e \<Rightarrow> Inl e
            | None \<Rightarrow> Inr (dob\<lparr>year := y, month := m, microsecond := 0\<rparr>))"
  using assms
  by (auto simp: new_datetime_def valid_datetime_def check_time_fields_def
      split: option.splits if_splits)

lemma birthday_months_range:
  assumes "1 \<le> month now" "month now \<le> 12" "1 \<le> month dob" "month dob \<le> 12"
  shows "0 \<le> birthday_months now dob \<and> birthday_months now dob \<le> 11"
  using assms by (auto simp: birthday_months_def Let_def)

lemma new_timedelta_seconds_range:
  "0 \<le> delta_seconds (new_timedelta d s us) \<and> delta_seconds (new_timedelta d s us) < 86400"
  by (simp add: new_timedelta_def Let_def)

lemma clock_fields_range:
  fixes s :: int
  assumes "0 \<le> s" "s < 86400"
  shows "0 \<le> s div 3600 \<and> s div 3600 \<le> 23 \<and> 0 \<le> s mod 3600 div 60 \<and>
         s mod 3600 div 60 \<le> 59 \<and> 0 \<le> s mod 60 \<and> s mod 60 \<le> 59"
  using assms by (auto simp: div_le_mono pos_imp_zdiv_nonneg_iff) 

lemma birthday_self:
  "birthday_years t t = 0" "birthday_months t t = 0"
  by (simp_all add: birthday_years_def birthday_months_def Let_def)

lemma last_birthday_self:
  assumes "month t \<le> 12"
  shows "last_birthday_year t t = year t" "last_birthday_month t t = month t"
  using assms by (simp_all add: last_birthday_year_def last_birthday_month_def birthday_self)

lemma valid_check_date:
  "valid_datetime t \<Longrightarrow> check_date_fields (year t) (month t) (day t) = None"
  by (simp add: valid_datetime_def)

lemma datetime_sub_truncated:
  assumes "0 \<le> microsecond t" "microsecond t \<le> 999999"
  shows "datetime_sub t (t\<lparr>microsecond := 0\<rparr>) =
           \<lparr>delta_days = 0, delta_seconds = 0, delta_microseconds = microsecond t\<rparr>"
  using assms
  by (simp add: datetime_sub_def new_timedelta_def toordinal_def seconds_of_day_def Let_def)

text \<open>When the construction of the last birthday fails, and with which error.\<close>

lemma last_birthday_check:
  assumes "valid_datetime now" "valid_datetime dob"
  shows "check_date_fields (last_birthday_year now dob) (last_birthday_month now dob) (day dob) =
           (if last_birthday_year now dob < 1 then Some (ValueError Year)
            else if days_in_month (last_birthday_year now dob) (last_birthday_month now dob)
                      < day dob
            then Some (ValueError Day) else None)"
proof -
  have m: "1 \<le> month now" "month now \<le> 12" "1 \<le> month dob" "month dob \<le> 12"
    using assms by (simp_all add: valid_datetime_iff)
  have "1 \<le> last_birthday_month now dob \<and> last_birthday_month now dob \<le> 12"
    using m by (simp add: last_birthday_month_eq [OF m])
  moreover have "last_birthday_year now dob \<le> 9999"
    using assms(1) by (simp add: last_birthday_year_eq [OF m] valid_datetime_iff)
  moreover have "1 \<le> day dob"
    using assms(2) by (simp add: valid_datetime_iff)
  ultimately show ?thesis
    by (auto simp: check_date_fields_def MINYEAR_def MAXYEAR_def)
qed

lemma calculate_detailed_age_cases:
  assumes "valid_datetime now" "valid_datetime dob"
  shows "calculate_detailed_age now dob =
           (if last_birthday_year now dob < 1 then Inl (ValueError Year)
            else if days_in_month (last_birthday_year now dob) (last_birthday_month now dob)
                      < day dob
            then Inl (ValueError Day)
            else Inr (age_of_delta (birthday_years now dob) (birthday_months now dob)
                   (datetime_sub now
                      (dob\<lparr>year := last_birthday_year now dob,
                           month := last_birthday_month now dob, microsecond := 0\<rparr>))))"
  by (simp add: calculate_detailed_age_unfold new_datetime_of_valid [OF assms(2)]
      last_birthday_check [OF assms])


lemma datetime_le_date:
  assumes "datetime_le a b"
  shows "year a \<le> year b"
    and "year a = year b \<Longrightarrow> month a \<le> month b"
    and "year a = year b \<Longrightarrow> month a = month b \<Longrightarrow> day a \<le> day b"
  using assms by (auto simp: datetime_le_def datetime_less_def fields_of_def)

lemma last_birthday_year_pos:
  assumes "valid_datetime now" "valid_datetime dob" "datetime_le dob now"
  shows "1 \<le> last_birthday_year now dob"
proof -
  have m: "1 \<le> month now" "month now \<le> 12" "1 \<le> month dob" "month dob \<le> 12"
    using assms by (simp_all add: valid_datetime_iff)
  have y: "1 \<le> year dob" "1 \<le> year now"
    using assms by (simp_all add: valid_datetime_iff)
  show ?thesis
  proof (cases "year dob = year now")
    case True
    then have "month dob \<le> month now" "month dob = month now \<Longrightarrow> day dob \<le> day now"
      using datetime_le_date(2,3) [OF assms(3)] by simp_all
    then have "\<not> (day now < day dob \<and> month now = 1)"
      using m by auto
    then have "last_birthday_year now dob = year now"
      by (simp only: last_birthday_year_eq [OF m] if_False)
    then show ?thesis
      using y by simp
  next
    case False
    then have "year dob < year now"
      using datetime_le_date(1) [OF assms(3)] by simp
    then show ?thesis
      using y by (simp add: last_birthday_year_eq [OF m])
  qed
qed

lemma hms_recompose:
  fixes s :: int
  shows "s div 3600 * 3600 + s mod 3600 div 60 * 60 + s mod 60 = s"
proof -
  have "s mod 3600 mod 60 = s mod 60"
    by (simp add: mod_mod_cancel)
  then show ?thesis
    using div_mult_mod_eq [of s 3600] div_mult_mod_eq [of "s mod 3600" 60] by linarith
qed

lemma duration_of_delta:
  assumes "0 \<le> microsecond now" "microsecond now \<le> 999999" "microsecond lb = 0"
  shows "duration_of (age_of_delta y m (datetime_sub now lb)) =
           ((toordinal now - toordinal lb) * 86400 + (seconds_of_day now - seconds_of_day lb))
             * 1000000"
proof -
  let ?s = "seconds_of_day now - seconds_of_day lb"
  have us: "(microsecond now - microsecond lb) div 1000000 = 0"
    using assms by simp
  have d: "delta_days (datetime_sub now lb) = toordinal now - toordinal lb + ?s div 86400"
    and s: "delta_seconds (datetime_sub now lb) = ?s mod 86400"
    by (simp_all add: datetime_sub_def new_timedelta_def Let_def us)
  have "duration_of (age_of_delta y m (datetime_sub now lb)) =
          ((toordinal now - toordinal lb + ?s div 86400) * 86400 + ?s mod 86400) * 1000000"
    using hms_recompose [of "?s mod 86400"]
    by (simp add: duration_of_def age_of_delta_def d s add.assoc)
  also have "\<dots> = ((toordinal now - toordinal lb) * 86400 + ?s) * 1000000"
    using div_mult_mod_eq [of ?s 86400] by (simp add: algebra_simps)
  finally show ?thesis .
qed

lemma months_total_split:
  fixes q r :: int
  assumes "0 \<le> r" "r < 12"
  shows "(q * 12 + r) div 12 = q" "(q * 12 + r) mod 12 = r"
  using assms by simp_all

lemma add_years_months_birthday:
  assumes "valid_datetime now" "valid_datetime dob"
    and "check_date_fields (last_birthday_year now dob) (last_birthday_month now dob) (day dob)
           = None"
  shows "add_years_months dob (birthday_years now dob) (birthday_months now dob) =
           Some (dob\<lparr>year := last_birthday_year now dob, month := last_birthday_month now dob\<rparr>)"
proof -
  have m: "1 \<le> month now" "month now \<le> 12" "1 \<le> month dob" "month dob \<le> 12"
    using assms by (simp_all add: valid_datetime_iff)
  define Y where "Y = year dob + birthday_years now dob"
  define M where "M = month dob + birthday_months now dob"
  define T where "T = (year dob + birthday_years now dob) * 12 + (month dob - 1)
                        + birthday_months now dob"
  have T: "T = Y * 12 + (M - 1)"
    by (simp add: T_def Y_def M_def)
  have r: "1 \<le> M" "M \<le> 23"
    using birthday_months_range [OF m] m by (simp_all add: M_def)
  have lb: "last_birthday_year now dob = (if M > 12 then Y + 1 else Y)"
    "last_birthday_month now dob = (if M > 12 then M - 12 else M)"
    by (simp_all add: last_birthday_year_def last_birthday_month_def Y_def M_def)
  have d: "T div 12 = last_birthday_year now dob" "T mod 12 + 1 = last_birthday_month now dob"
  proof -
    show "T div 12 = last_birthday_year now dob"
    proof (cases "M > 12")
      case True
      have "T = (Y + 1) * 12 + (M - 13)" using T by (simp add: algebra_simps)
      then show ?thesis
        using months_total_split(1) [of "M - 13" "Y + 1"] True r lb by simp
    next
      case False
      then show ?thesis
        using months_total_split(1) [of "M - 1" Y] T r lb by simp
    qed
    show "T mod 12 + 1 = last_birthday_month now dob"
    proof (cases "M > 12")
      case True
      have "T = (Y + 1) * 12 + (M - 13)" using T by (simp add: algebra_simps)
      then show ?thesis
        using months_total_split(2) [of "M - 13" "Y + 1"] True r lb by simp
    next
      case False
      then show ?thesis
        using months_total_split(2) [of "M - 1" Y] T r lb by simp
    qed
  qed
  show ?thesis
    unfolding add_years_months_def Let_def d [unfolded T_def]
    using assms(3) by simp
qed

section \<open>The concrete scenarios\<close>

text \<open>
  Claim C7 (scenario 3). For \<open>origin = 1999-02-28 00:00:00\<close> and
  \<open>reference = 2000-03-01 00:00:00\<close> the leap day 2000-02-29 lies between the last
  anniversary 2000-02-28 and the reference, and the function returns one year, no
  months and two days, with a zero time of day.
\<close>

theorem scenario_leap_day:
  "calculate_detailed_age (instant 2000 3 1 0 0 0) (instant 1999 2 28 0 0 0)
   = Inr \<lparr>years = 1, months = 0, days = 2, hours = 0, minutes = 0, seconds = 0\<rparr>"
  by (simp add: datetime_eval)

text \<open>
  Claim C4 (scenario 2), as the specification states it: for
  \<open>origin = 2000-03-15 10:00:00\<close> and \<open>reference = 2024-03-14 10:00:00\<close> the function
  returns 23 years and 11 months, and 365 days. The first two fields are as stated; the
  days are not 365, because the eleven months have already been taken off: the last
  anniversary is 2024-02-15 10:00:00, not 2023-03-15.
\<close>

theorem scenario_eve_of_birthday_not_365_days:
  "\<not> isl (calculate_detailed_age (instant 2024 3 14 10 0 0) (instant 2000 3 15 10 0 0)) \<and>
   years (projr (calculate_detailed_age (instant 2024 3 14 10 0 0) (instant 2000 3 15 10 0 0)))
     = 23 \<and>
   months (projr (calculate_detailed_age (instant 2024 3 14 10 0 0) (instant 2000 3 15 10 0 0)))
     = 11 \<and>
   days (projr (calculate_detailed_age (instant 2024 3 14 10 0 0) (instant 2000 3 15 10 0 0)))
     \<noteq> 365"
  by (simp add: datetime_eval)

text \<open>
  Claim C4, amended: for the same two instants the function returns 23 years, 11 months and
  28 days, the number of days from the anniversary 2024-02-15 to 2024-03-14 (February
  2024 has 29 days), with a zero time of day.
\<close>

theorem scenario_eve_of_birthday:
  "calculate_detailed_age (instant 2024 3 14 10 0 0) (instant 2000 3 15 10 0 0)
   = Inr \<lparr>years = 23, months = 11, days = 28, hours = 0, minutes = 0, seconds = 0\<rparr>"
  by (simp add: datetime_eval)

section \<open>Equal instants\<close>

text \<open>
  Claim C6. For every instant \<open>t\<close>, \<open>calculate_detailed_age t t\<close> returns the breakdown
  whose six fields are all zero, and does not fail. This holds for every value a
  \<^verbatim>\<open>datetime\<close> can hold, also one with a sub-second part.
\<close>

theorem same_instant_all_zero:
  assumes "valid_datetime t"
  shows "calculate_detailed_age t t =
           Inr \<lparr>years = 0, months = 0, days = 0, hours = 0, minutes = 0, seconds = 0\<rparr>"
proof -
  have lb: "new_datetime (year t) (month t) (day t) (hour t) (minute t) (second t) =
              Inr (t\<lparr>microsecond := 0\<rparr>)"
    using assms by (simp add: new_datetime_of_valid valid_check_date)
  have us: "0 \<le> microsecond t" "microsecond t \<le> 999999"
    using assms by (simp_all add: valid_datetime_iff)
  have "month t \<le> 12"
    using assms by (simp add: valid_datetime_iff)
  then show ?thesis
    by (simp add: calculate_detailed_age_unfold birthday_self last_birthday_self lb
        datetime_sub_truncated [OF us] age_of_delta_def)
qed

theorem same_instant_all_zero_witness:
  "calculate_detailed_age
     \<lparr>year = 2024, month = 2, day = 29, hour = 23, minute = 59, second = 59, microsecond = 999999\<rparr>
     \<lparr>year = 2024, month = 2, day = 29, hour = 23, minute = 59, second = 59, microsecond = 999999\<rparr>
   = Inr \<lparr>years = 0, months = 0, days = 0, hours = 0, minutes = 0, seconds = 0\<rparr>"
proof -
  have v: "valid_datetime
     \<lparr>year = 2024, month = 2, day = 29, hour = 23, minute = 59, second = 59, microsecond = 999999\<rparr>"
    by (simp add: valid_datetime_iff days_in_month_def is_leap_def)
  show ?thesis by (rule same_instant_all_zero [OF v])
qed

section \<open>The ranges of the fields\<close>

text \<open>
  Claim C9. Whenever the function returns, in whatever order its two arguments are, the
  months lie in \<open>0..11\<close>, the hours in \<open>0..23\<close> and the minutes and seconds in \<open>0..59\<close>.
\<close>

theorem fields_normalised:
  assumes "valid_datetime now" "valid_datetime dob" "calculate_detailed_age now dob = Inr b"
  shows "0 \<le> months b \<and> months b \<le> 11 \<and> 0 \<le> hours b \<and> hours b \<le> 23 \<and>
         0 \<le> minutes b \<and> minutes b \<le> 59 \<and> 0 \<le> seconds b \<and> seconds b \<le> 59"
proof -
  from assms(3) obtain lb where
    b: "b = age_of_delta (birthday_years now dob) (birthday_months now dob) (datetime_sub now lb)"
    by (auto simp: calculate_detailed_age_unfold split: sum.splits)
  have m: "0 \<le> months b \<and> months b \<le> 11"
    using assms(1,2) birthday_months_range [of now dob]
    by (simp add: b age_of_delta_def valid_datetime_iff)
  let ?s = "delta_seconds (datetime_sub now lb)"
  have "0 \<le> ?s \<and> ?s < 86400"
    by (simp add: datetime_sub_def new_timedelta_seconds_range)
  then have "0 \<le> ?s div 3600 \<and> ?s div 3600 \<le> 23 \<and> 0 \<le> ?s mod 3600 div 60 \<and>
         ?s mod 3600 div 60 \<le> 59 \<and> 0 \<le> ?s mod 60 \<and> ?s mod 60 \<le> 59"
    using clock_fields_range by blast
  then show ?thesis using m by (simp add: b age_of_delta_def)
qed

theorem fields_normalised_witness:
  "calculate_detailed_age (instant 2024 1 1 0 0 0) (instant 2024 1 2 0 0 0)
     = Inr \<lparr>years = - 1, months = 11, days = 30, hours = 0, minutes = 0, seconds = 0\<rparr> \<and>
   0 \<le> months \<lparr>years = - 1, months = 11, days = 30, hours = 0, minutes = 0, seconds = 0\<rparr> \<and>
   months \<lparr>years = - 1, months = 11, days = 30, hours = 0, minutes = 0, seconds = 0\<rparr> \<le> 11"
proof -
  have n: "valid_datetime (instant 2024 1 1 0 0 0)"
    and d: "valid_datetime (instant 2024 1 2 0 0 0)"
    by (simp_all add: valid_eval)
  have c: "calculate_detailed_age (instant 2024 1 1 0 0 0) (instant 2024 1 2 0 0 0)
     = Inr \<lparr>years = - 1, months = 11, days = 30, hours = 0, minutes = 0, seconds = 0\<rparr>"
    by (simp add: datetime_eval)
  show ?thesis
    using fields_normalised [OF n d c] c by simp
qed

section \<open>Failure\<close>

text \<open>
  Claim C3, as the specification states it: the function fails whenever
  \<open>origin > reference\<close>. It does not: it has no check of the order of its arguments (the
  caller \<^verbatim>\<open>AgeCounterUI.start_counter\<close> rejects a date of birth in the future before the
  first call). For \<open>origin = 2024-01-02\<close> and \<open>reference = 2024-01-01\<close> it returns
  minus one year, eleven months and thirty days.
\<close>

theorem origin_after_reference_returns:
  "datetime_less (instant 2024 1 1 0 0 0) (instant 2024 1 2 0 0 0) \<and>
   calculate_detailed_age (instant 2024 1 1 0 0 0) (instant 2024 1 2 0 0 0)
     = Inr \<lparr>years = - 1, months = 11, days = 30, hours = 0, minutes = 0, seconds = 0\<rparr>"
  by (simp add: datetime_eval order_eval)

text \<open>
  Claim C3, amended: the function never fails because of the order of its arguments. On
  any two datetimes it fails exactly when the date of the last anniversary cannot be
  constructed: with a \<^verbatim>\<open>ValueError\<close> for the year when that year is below 1, and otherwise
  with a \<^verbatim>\<open>ValueError\<close> for the day when the day of the origin exceeds the length of the
  anniversary month. On every other input, \<open>origin > reference\<close> included, it returns a
  breakdown.
\<close>

theorem failure_iff_no_anniversary:
  assumes "valid_datetime now" "valid_datetime dob"
  shows "calculate_detailed_age now dob = Inl e \<longleftrightarrow>
           (e = ValueError Year \<and> last_birthday_year now dob < 1) \<or>
           (e = ValueError Day \<and> 1 \<le> last_birthday_year now dob \<and>
            days_in_month (last_birthday_year now dob) (last_birthday_month now dob) < day dob)"
  by (auto simp: calculate_detailed_age_cases [OF assms])

theorem failure_iff_no_anniversary_witness:
  "calculate_detailed_age (instant 2023 10 1 8 30 0) (instant 1990 8 31 12 0 0)
     = Inl (ValueError Day)"
proof -
  have n: "valid_datetime (instant 2023 10 1 8 30 0)"
    and d: "valid_datetime (instant 1990 8 31 12 0 0)"
    by (simp_all add: valid_eval)
  have "1 \<le> last_birthday_year (instant 2023 10 1 8 30 0) (instant 1990 8 31 12 0 0) \<and>
        days_in_month (last_birthday_year (instant 2023 10 1 8 30 0) (instant 1990 8 31 12 0 0))
          (last_birthday_month (instant 2023 10 1 8 30 0) (instant 1990 8 31 12 0 0))
          < day (instant 1990 8 31 12 0 0)"
    by (simp add: last_birthday_year_def last_birthday_month_def birthday_years_def
        birthday_months_def days_in_month_def is_leap_def DAYS_IN_MONTH_def Let_def)
  then show ?thesis
    using failure_iff_no_anniversary [OF n d, of "ValueError Day"] by simp
qed

text \<open>
  Claim C5. There are inputs with \<open>origin \<le> reference\<close> for which the day of the origin
  does not exist in the month of the last anniversary (origin 2000-01-31, reference
  2000-03-01: the anniversary would be 2000-02-31), and on every such input the function
  fails with the \<^verbatim>\<open>ValueError\<close> of the constructor instead of returning a breakdown.
\<close>

theorem day_overflow_fails:
  "(valid_datetime (instant 2000 3 1 0 0 0) \<and> valid_datetime (instant 2000 1 31 0 0 0) \<and>
    datetime_le (instant 2000 1 31 0 0 0) (instant 2000 3 1 0 0 0) \<and>
    days_in_month (last_birthday_year (instant 2000 3 1 0 0 0) (instant 2000 1 31 0 0 0))
      (last_birthday_month (instant 2000 3 1 0 0 0) (instant 2000 1 31 0 0 0))
      < day (instant 2000 1 31 0 0 0)) \<and>
   (\<forall>now dob. valid_datetime now \<longrightarrow> valid_datetime dob \<longrightarrow> datetime_le dob now \<longrightarrow>
      days_in_month (last_birthday_year now dob) (last_birthday_month now dob) < day dob \<longrightarrow>
      calculate_detailed_age now dob = Inl (ValueError Day))"
proof (intro conjI allI impI)
  show "valid_datetime (instant 2000 3 1 0 0 0)" "valid_datetime (instant 2000 1 31 0 0 0)"
    by (simp_all add: valid_eval)
  show "datetime_le (instant 2000 1 31 0 0 0) (instant 2000 3 1 0 0 0)"
    by (simp add: order_eval)
  show "days_in_month (last_birthday_year (instant 2000 3 1 0 0 0) (instant 2000 1 31 0 0 0))
      (last_birthday_month (instant 2000 3 1 0 0 0) (instant 2000 1 31 0 0 0))
      < day (instant 2000 1 31 0 0 0)"
    by (simp add: last_birthday_year_def last_birthday_month_def birthday_years_def
        birthday_months_def days_in_month_def is_leap_def DAYS_IN_MONTH_def Let_def)
next
  fix now dob
  assume v: "valid_datetime now" "valid_datetime dob" and le: "datetime_le dob now"
    and over: "days_in_month (last_birthday_year now dob) (last_birthday_month now dob)
                 < day dob"
  show "calculate_detailed_age now dob = Inl (ValueError Day)"
    using last_birthday_year_pos [OF v le] over
    by (simp add: calculate_detailed_age_cases [OF v])
qed

theorem day_overflow_fails_witness:
  "calculate_detailed_age (instant 2000 3 1 0 0 0) (instant 2000 1 31 0 0 0)
     = Inl (ValueError Day)"
  using day_overflow_fails by blast

text \<open>
  Claim C10, as stated: for every pair of datetimes whose origin has a day of the month of
  at most 28 the function never fails. It fails for \<open>origin = 0001-01-05\<close> and
  \<open>reference = 0001-01-03\<close>: the last anniversary would lie in December of the year 0,
  and the constructor accepts the years \<open>1..9999\<close> only.
\<close>

theorem day_at_most_28_year_zero_fails:
  "valid_datetime (instant 1 1 3 0 0 0) \<and> valid_datetime (instant 1 1 5 0 0 0) \<and>
   day (instant 1 1 5 0 0 0) \<le> 28 \<and>
   calculate_detailed_age (instant 1 1 3 0 0 0) (instant 1 1 5 0 0 0) = Inl (ValueError Year)"
  by (simp add: datetime_eval valid_datetime_def)

text \<open>
  Claim C10, amended: for every pair of datetimes whose origin has a day of the month of at
  most 28, the function returns a breakdown unless the reference lies in January of the
  year 1 on a day of the month before that of the origin; in particular it returns a
  breakdown whenever \<open>origin \<le> reference\<close>.
\<close>

theorem day_at_most_28_returns:
  assumes "valid_datetime now" "valid_datetime dob" "day dob \<le> 28"
  shows "((\<exists>b. calculate_detailed_age now dob = Inr b) \<longleftrightarrow>
            \<not> (year now = 1 \<and> month now = 1 \<and> day now < day dob)) \<and>
         (datetime_le dob now \<longrightarrow> (\<exists>b. calculate_detailed_age now dob = Inr b))"
proof -
  have m: "1 \<le> month now" "month now \<le> 12" "1 \<le> month dob" "month dob \<le> 12"
    using assms by (simp_all add: valid_datetime_iff)
  have y: "1 \<le> year now"
    using assms by (simp add: valid_datetime_iff)
  have "1 \<le> last_birthday_month now dob \<and> last_birthday_month now dob \<le> 12"
    using m by (simp add: last_birthday_month_eq [OF m])
  then have d: "\<not> days_in_month (last_birthday_year now dob) (last_birthday_month now dob)
                  < day dob"
    using days_in_month_bounds [of "last_birthday_month now dob" "last_birthday_year now dob"]
      assms(3) by simp
  have 1: "(\<exists>b. calculate_detailed_age now dob = Inr b) \<longleftrightarrow>
            \<not> (year now = 1 \<and> month now = 1 \<and> day now < day dob)"
    using y d by (auto simp: calculate_detailed_age_cases [OF assms(1,2)]
        last_birthday_year_eq [OF m])
  have 2: "\<exists>b. calculate_detailed_age now dob = Inr b" if "datetime_le dob now"
    using last_birthday_year_pos [OF assms(1,2) that] d
    by (simp add: calculate_detailed_age_cases [OF assms(1,2)])
  show ?thesis using 1 2 by blast
qed

theorem day_at_most_28_returns_witness:
  "datetime_le (instant 1996 2 28 6 0 0) (instant 2023 3 1 0 0 0) \<and>
   (\<exists>b. calculate_detailed_age (instant 2023 3 1 0 0 0) (instant 1996 2 28 6 0 0) = Inr b)"
proof -
  have n: "valid_datetime (instant 2023 3 1 0 0 0)"
    and d: "valid_datetime (instant 1996 2 28 6 0 0)"
    by (simp_all add: valid_eval)
  have le: "datetime_le (instant 1996 2 28 6 0 0) (instant 2023 3 1 0 0 0)"
    by (simp add: order_eval)
  show ?thesis
    using day_at_most_28_returns [OF n d] le by simp
qed

section \<open>The reconstruction law\<close>

text \<open>
  Claim C1. Whenever the function returns a breakdown, adding it back onto the origin
  yields the reference: the years and months by calendar addition, which gives the last
  anniversary, and the days, hours, minutes and seconds as a fixed duration from there.
  The instants of the specification have the six components year to second, and the
  breakdown has no sub-second field; the law is proved for all datetimes whose sub-second
  parts agree, which includes every pair of instants with none. It needs no assumption on
  the order of the two instants.
\<close>

theorem reconstruction_law:
  assumes "valid_datetime now" "valid_datetime dob"
    and "microsecond now = microsecond dob"
    and "calculate_detailed_age now dob = Inr b"
  shows "\<exists>a. add_years_months dob (years b) (months b) = Some a \<and>
             add_duration_yields a (duration_of b) now"
proof -
  let ?Y = "last_birthday_year now dob" and ?M = "last_birthday_month now dob"
  let ?lb = "dob\<lparr>year := ?Y, month := ?M, microsecond := 0\<rparr>"
  let ?a = "dob\<lparr>year := ?Y, month := ?M\<rparr>"
  from assms(4) have chk: "check_date_fields ?Y ?M (day dob) = None"
    and b: "b = age_of_delta (birthday_years now dob) (birthday_months now dob)
                 (datetime_sub now ?lb)"
    by (auto simp: calculate_detailed_age_unfold new_datetime_of_valid [OF assms(2)]
        split: option.splits)
  have ym: "years b = birthday_years now dob" "months b = birthday_months now dob"
    by (simp_all add: b age_of_delta_def)
  have 1: "add_years_months dob (years b) (months b) = Some ?a"
    using add_years_months_birthday [OF assms(1,2) chk] by (simp add: ym)
  have us: "0 \<le> microsecond now" "microsecond now \<le> 999999"
    using assms(1) by (simp_all add: valid_datetime_iff)
  have "duration_of b =
          ((toordinal now - toordinal ?lb) * 86400 + (seconds_of_day now - seconds_of_day ?lb))
            * 1000000"
    unfolding b by (rule duration_of_delta [OF us]) simp
  moreover have "toordinal ?lb = toordinal ?a" "seconds_of_day ?lb = seconds_of_day ?a"
    by (simp_all add: toordinal_def seconds_of_day_def)
  ultimately have "timestamp now = timestamp ?a + duration_of b"
    using assms(3) by (simp add: timestamp_def algebra_simps)
  then have 2: "add_duration_yields ?a (duration_of b) now"
    using assms(1) by (simp add: add_duration_yields_def)
  show ?thesis using 1 2 by blast
qed

theorem reconstruction_law_witness:
  "calculate_detailed_age (instant 2024 3 14 9 30 15) (instant 2000 3 15 10 0 0)
     = Inr \<lparr>years = 23, months = 11, days = 27, hours = 23, minutes = 30, seconds = 15\<rparr> \<and>
   add_years_months (instant 2000 3 15 10 0 0) 23 11 = Some (instant 2024 2 15 10 0 0) \<and>
   add_duration_yields (instant 2024 2 15 10 0 0)
     (duration_of \<lparr>years = 23, months = 11, days = 27, hours = 23, minutes = 30, seconds = 15\<rparr>)
     (instant 2024 3 14 9 30 15)"
proof -
  have n: "valid_datetime (instant 2024 3 14 9 30 15)"
    and d: "valid_datetime (instant 2000 3 15 10 0 0)"
    by (simp_all add: valid_eval)
  have us: "microsecond (instant 2024 3 14 9 30 15) = microsecond (instant 2000 3 15 10 0 0)"
    by simp
  have c: "calculate_detailed_age (instant 2024 3 14 9 30 15) (instant 2000 3 15 10 0 0)
     = Inr \<lparr>years = 23, months = 11, days = 27, hours = 23, minutes = 30, seconds = 15\<rparr>"
    by (simp add: datetime_eval)
  have a: "add_years_months (instant 2000 3 15 10 0 0) 23 11 = Some (instant 2024 2 15 10 0 0)"
    by (simp add: add_years_months_def valid_eval Let_def)
  show ?thesis
    using reconstruction_law [OF n d us c] a c by simp
qed

section \<open>The day of the anniversary before its time of day\<close>

text \<open>
  Claim C2 states that all six fields are non-negative when \<open>origin \<le> reference\<close>. The
  anniversary test of the function compares months and days only, so on the day of an
  anniversary, before its time of day, the anniversary counts as reached and the
  remainder is negative: for \<open>origin = 2000-03-15 10:00:00\<close> and
  \<open>reference = 2024-03-15 09:00:00\<close> the function returns 24 years, 0 months, minus one
  day and 23 hours.
\<close>

theorem negative_days_before_birthday_time:
  "valid_datetime (instant 2024 3 15 9 0 0) \<and> valid_datetime (instant 2000 3 15 10 0 0) \<and>
   datetime_le (instant 2000 3 15 10 0 0) (instant 2024 3 15 9 0 0) \<and>
   calculate_detailed_age (instant 2024 3 15 9 0 0) (instant 2000 3 15 10 0 0)
     = Inr \<lparr>years = 24, months = 0, days = - 1, hours = 23, minutes = 0, seconds = 0\<rparr>"
  by (simp add: datetime_eval valid_datetime_def order_eval)

text \<open>
  Claim C8 states that, as the reference advances by one second, the months carry into the
  years and the days into the months only at the exact anniversary boundary. In the
  function the carry happens at the midnight that starts the day of the anniversary: from
  \<open>2024-03-14 23:59:59\<close> to \<open>2024-03-15 00:00:00\<close>, one second later, the years go from 23
  to 24 and the months from 11 to 0, ten hours before the anniversary of
  \<open>origin = 2000-03-15 10:00:00\<close>, and the remainder becomes minus one day and 14 hours.
\<close>

theorem carry_at_midnight_before_anniversary:
  "timestamp (instant 2024 3 15 0 0 0) = timestamp (instant 2024 3 14 23 59 59) + 1000000 \<and>
   calculate_detailed_age (instant 2024 3 14 23 59 59) (instant 2000 3 15 10 0 0)
     = Inr \<lparr>years = 23, months = 11, days = 28, hours = 13, minutes = 59, seconds = 59\<rparr> \<and>
   calculate_detailed_age (instant 2024 3 15 0 0 0) (instant 2000 3 15 10 0 0)
     = Inr \<lparr>years = 24, months = 0, days = - 1, hours = 14, minutes = 0, seconds = 0\<rparr>"
  by (simp add: datetime_eval timestamp_def)

end
